theory Spec2Isabelle
  imports Main
begin

section \<open>GiveWayBot: startup, shutdown, the /start command and the logging helper\<close>

text \<open>
  A shallow embedding of \<^verbatim>\<open>src/main.ts\<close>, \<^verbatim>\<open>src/bot/helpers/logging.ts\<close> and
  \<^verbatim>\<open>src/bot/features/start.ts\<close>.

  The program is glue around collaborators that are not part of these files: the bot
  framework, the HTTP server, the logger and the configuration. A call to a collaborator is
  an \<open>event\<close> appended to the trace of the world, in program order, and the answer of the
  collaborator (it returns, it throws, it has not answered yet) is read from an
  environment that the theorems quantify over.
\<close>

subsection \<open>Values\<close>

text \<open>The value thrown by a failing call; only its identity matters.\<close>

type_synonym error = string

text \<open>
  The state of a promise when the caller looks at it. \<open>Pending\<close> is a call that has been
  made and has not settled: the code after its \<^verbatim>\<open>await\<close> has not run.
\<close>

datatype 'a result = Fulfilled 'a | Rejected error | Pending

text \<open>The objects handed to the logger.\<close>

datatype json =
    JStr string
  | JNum int
  | JBool bool
  | JNull
  | JArr "json list"
  | JObj "(string \<times> json) list"

datatype signal = SIGINT | SIGTERM

text \<open>\<^verbatim>\<open>AddressInfo\<close> of \<^verbatim>\<open>node:net\<close>, as the listener reports it.\<close>

record AddressInfo =
  address :: string
  family :: string
  port :: nat

text \<open>
  \<^verbatim>\<open>config\<close> of \<^verbatim>\<open>#root/config.js\<close>: the module is not among the sources, so its
  fields are parameters. \<open>BOT_MODE\<close> is a string, as \<^verbatim>\<open>main.ts\<close> compares it.
\<close>

record config =
  BOT_TOKEN :: string
  BOT_MODE :: string
  BOT_ALLOWED_UPDATES :: "string list"
  BOT_SERVER_HOST :: string
  BOT_SERVER_PORT :: nat
  BOT_WEBHOOK :: string
  BOT_WEBHOOK_SECRET :: string

subsection \<open>The world: calls made so far\<close>

text \<open>
  The last event is not a call of the program but what the runtime does when an error
  reaches it: an \<^verbatim>\<open>'error'\<close> event emitted with no listener for it, or a promise that
  is rejected with nobody awaiting it, is an uncaught exception; the runtime prints it and
  ends the process with status 1, and neither \<^verbatim>\<open>logger.error\<close> nor \<^verbatim>\<open>process.exit\<close>
  is called.
\<close>

datatype event =
    CreateBot string                      \<comment> \<open>\<^verbatim>\<open>createBot(token)\<close>\<close>
  | CreateServer                          \<comment> \<open>\<^verbatim>\<open>createServer(bot)\<close>\<close>
  | ProcessOn signal                      \<comment> \<open>\<^verbatim>\<open>process.on(signal, handleShutdown)\<close>\<close>
  | BotInit                               \<comment> \<open>\<^verbatim>\<open>bot.init()\<close>\<close>
  | BotStart "string list"                \<comment> \<open>\<^verbatim>\<open>bot.start({allowed_updates, onStart})\<close>\<close>
  | BotStop                               \<comment> \<open>\<^verbatim>\<open>bot.stop()\<close>\<close>
  | Serve string nat                      \<comment> \<open>\<^verbatim>\<open>serve({fetch, hostname, port}, cb)\<close>\<close>
  | ServerClose                           \<comment> \<open>\<^verbatim>\<open>serverHandle.close(cb)\<close>\<close>
  | SetWebhook string "string list" string
      \<comment> \<open>\<^verbatim>\<open>bot.api.setWebhook(url, {allowed_updates, secret_token})\<close>\<close>
  | LoggerInfo json                       \<comment> \<open>\<^verbatim>\<open>logger.info(...)\<close>\<close>
  | LoggerError error                     \<comment> \<open>\<^verbatim>\<open>logger.error(error)\<close>\<close>
  | ProcessExit nat                       \<comment> \<open>\<^verbatim>\<open>process.exit(code)\<close>\<close>
  | Uncaught error
      \<comment> \<open>the runtime finds that nothing catches \<open>error\<close> and ends the process with status 1\<close>

text \<open>
  \<open>serverHandle\<close> is the variable of \<^verbatim>\<open>startWebhook\<close> (line 55) that \<^verbatim>\<open>startServer\<close>
  assigns and \<^verbatim>\<open>stopServer\<close> reads; \<open>None\<close> is \<^verbatim>\<open>undefined\<close>. The handle itself is the
  listener that \<^verbatim>\<open>serve\<close> returned, named by the host and port it was asked for.
\<close>

record world =
  trace :: "event list"
  serverHandle :: "(string \<times> nat) option"

type_synonym 'a io = "world \<Rightarrow> 'a result \<times> world"

definition emit :: "event \<Rightarrow> world \<Rightarrow> world" where
  "emit e w = w\<lparr>trace := trace w @ [e]\<rparr>"

subsection \<open>The process: signal listeners and the flags their closures share\<close>

text \<open>
  \<^verbatim>\<open>handleShutdown\<close> is a closure over the variable \<^verbatim>\<open>isShuttingDown\<close> of the call of
  \<^verbatim>\<open>onShutdown\<close> that made it, and over \<^verbatim>\<open>cleanUp\<close>. Each call of \<^verbatim>\<open>onShutdown\<close> makes
  a new variable: \<open>flags\<close> is the store of these variables, and a closure holds the index
  of its own. The same closure is registered for both signals, so both registrations
  share one flag.

  A cleanup action is an asynchronous operation on the world. It cannot reach
  \<^verbatim>\<open>isShuttingDown\<close>, which is local to \<^verbatim>\<open>onShutdown\<close>.
\<close>

type_synonym cleanup = "unit io"

datatype handler = HandleShutdown nat cleanup

record process =
  world :: world
  flags :: "bool list"
  listeners :: "(signal \<times> handler) list"

definition perform :: "'a io \<Rightarrow> process \<Rightarrow> 'a result \<times> process" where
  "perform f p = (case f (world p) of (r, w) \<Rightarrow> (r, p\<lparr>world := w\<rparr>))"

definition on_world :: "(world \<Rightarrow> world) \<Rightarrow> process \<Rightarrow> process" where
  "on_world f p = p\<lparr>world := f (world p)\<rparr>"

definition logger_info :: "json \<Rightarrow> world \<Rightarrow> world" where
  "logger_info j = emit (LoggerInfo j)"

definition logger_error :: "error \<Rightarrow> world \<Rightarrow> world" where
  "logger_error e = emit (LoggerError e)"

definition process_exit :: "nat \<Rightarrow> world \<Rightarrow> world" where
  "process_exit c = emit (ProcessExit c)"

definition process_on :: "signal \<Rightarrow> handler \<Rightarrow> process \<Rightarrow> process" where
  "process_on s h p =
     p\<lparr>world := emit (ProcessOn s) (world p), listeners := listeners p @ [(s, h)]\<rparr>"

text \<open>
  \<^verbatim>\<open>handleShutdown\<close> (lines 17 to 22). The flag is set and the line logged before
  \<^verbatim>\<open>cleanUp\<close> is called; the promise of \<^verbatim>\<open>cleanUp\<close> is awaited and nothing follows, so
  the result of the handler is the result of \<^verbatim>\<open>cleanUp\<close>.
\<close>

definition handleShutdown :: "nat \<Rightarrow> cleanup \<Rightarrow> process \<Rightarrow> unit result \<times> process" where
  "handleShutdown a cleanUp p =
     (if flags p ! a then (Fulfilled (), p)
      else perform cleanUp
             (on_world (logger_info (JStr ''Shutdown''))
                (p\<lparr>flags := (flags p)[a := True]\<rparr>)))"

text \<open>\<^verbatim>\<open>onShutdown\<close> (lines 15 to 25).\<close>

definition onShutdown :: "cleanup \<Rightarrow> process \<Rightarrow> process" where
  "onShutdown cleanUp p =
     (let a = length (flags p);
          p1 = p\<lparr>flags := flags p @ [False]\<rparr>;
          h = HandleShutdown a cleanUp
      in process_on SIGTERM h (process_on SIGINT h p1))"

text \<open>
  Delivery of a signal: the listeners registered for it run in the order of their
  registration. The event emitter drops what a listener returns, so nobody awaits the
  promise of \<^verbatim>\<open>handleShutdown\<close>: when it is rejected, the rejection reaches the runtime
  as an uncaught exception. With no listener for the signal the default disposition of the
  runtime applies, which is outside this model: \<open>None\<close>. Delivery does not look at
  whether the process has ended; a statement about a running process says that nothing in
  its trace has ended it.
\<close>

fun run_handler :: "handler \<Rightarrow> process \<Rightarrow> process" where
  "run_handler (HandleShutdown a cleanUp) p =
     (case handleShutdown a cleanUp p of
        (Rejected e, q) \<Rightarrow> on_world (emit (Uncaught e)) q
      | (Fulfilled u, q) \<Rightarrow> q
      | (Pending, q) \<Rightarrow> q)"

definition listeners_of :: "signal \<Rightarrow> process \<Rightarrow> handler list" where
  "listeners_of s p = map snd (filter (\<lambda>l. fst l = s) (listeners p))"

definition deliver :: "signal \<Rightarrow> process \<Rightarrow> process option" where
  "deliver s p =
     (case listeners_of s p of
        [] \<Rightarrow> None
      | hs \<Rightarrow> Some (fold run_handler hs p))"

fun deliver_all :: "signal list \<Rightarrow> process \<Rightarrow> process option" where
  "deliver_all [] p = Some p"
| "deliver_all (s # ss) p =
     (case deliver s p of None \<Rightarrow> None | Some q \<Rightarrow> deliver_all ss q)"

subsection \<open>The collaborators\<close>

text \<open>
  What the collaborators answer. \<^verbatim>\<open>createBot\<close> is called without \<^verbatim>\<open>await\<close>: it returns
  or throws. \<^verbatim>\<open>bot.start\<close> calls \<^verbatim>\<open>onStart\<close> with the name of the bot once it polls,
  and its promise is rejected or stays pending: it is fulfilled only after
  \<^verbatim>\<open>bot.stop\<close>, and \<^verbatim>\<open>main.ts\<close> does nothing after it.

  What becomes of a call of \<^verbatim>\<open>serve\<close>:
  \<^item> \<open>ServeThrows e\<close>: the call itself throws;
  \<^item> \<open>Listening info\<close>: it returns the listener, which binds and calls back with its
    address;
  \<^item> \<open>BindError e\<close>: it returns the listener, which fails to bind (the port is in use,
    or not permitted) and emits \<^verbatim>\<open>'error'\<close> instead of calling back;
  \<^item> \<open>Binding\<close>: it returns the listener, which has done neither yet.
\<close>

datatype bind = ServeThrows error | Listening AddressInfo | BindError error | Binding

record env =
  createBot_throws :: "error option"
  createServer_outcome :: "unit result"
  init_outcome :: "unit result"
  serve_outcome :: bind
  setWebhook_outcome :: "unit result"
  onStart_username :: "string option"
  start_rejects :: "error option"
  stop_outcome :: "unit result"

definition createBot :: "env \<Rightarrow> string \<Rightarrow> unit io" where
  "createBot en token w =
     ((case createBot_throws en of None \<Rightarrow> Fulfilled () | Some e \<Rightarrow> Rejected e),
      emit (CreateBot token) w)"

definition createServer :: "env \<Rightarrow> unit io" where
  "createServer en w = (createServer_outcome en, emit CreateServer w)"

definition bot_init :: "env \<Rightarrow> unit io" where
  "bot_init en w = (init_outcome en, emit BotInit w)"

definition bot_stop :: "env \<Rightarrow> unit io" where
  "bot_stop en w = (stop_outcome en, emit BotStop w)"

definition bot_start :: "env \<Rightarrow> string list \<Rightarrow> (string \<Rightarrow> world \<Rightarrow> world) \<Rightarrow> unit io" where
  "bot_start en allowed_updates onStart w =
     (let w1 = emit (BotStart allowed_updates) w;
          w2 = (case onStart_username en of None \<Rightarrow> w1 | Some username \<Rightarrow> onStart username w1)
      in ((case start_rejects en of None \<Rightarrow> Pending | Some e \<Rightarrow> Rejected e), w2))"

definition setWebhook :: "env \<Rightarrow> string \<Rightarrow> string list \<Rightarrow> string \<Rightarrow> unit io" where
  "setWebhook en url allowed_updates secret_token w =
     (setWebhook_outcome en, emit (SetWebhook url allowed_updates secret_token) w)"

subsection \<open>Template literals\<close>

text \<open>The decimal digits of a number, as a template literal prints a port.\<close>

definition digit :: "nat \<Rightarrow> char" where
  "digit d =
     (if d = 0 then CHR ''0'' else if d = 1 then CHR ''1'' else if d = 2 then CHR ''2''
      else if d = 3 then CHR ''3'' else if d = 4 then CHR ''4'' else if d = 5 then CHR ''5''
      else if d = 6 then CHR ''6'' else if d = 7 then CHR ''7'' else if d = 8 then CHR ''8''
      else CHR ''9'')"

function string_of_nat :: "nat \<Rightarrow> string" where
  "string_of_nat n =
     (if n < 10 then [digit n] else string_of_nat (n div 10) @ [digit (n mod 10)])"
  by pat_completeness auto
termination
  by (relation "measure (\<lambda>n. n)") auto

declare string_of_nat.simps [simp del]


subsection \<open>\<^verbatim>\<open>main.ts\<close>\<close>

text \<open>
  Sequencing of \<^verbatim>\<open>await\<close>: the rest runs when the promise is fulfilled; a rejection is
  thrown on to the caller; while the promise is pending the rest has not run.
\<close>

definition andThen ::
  "'a result \<times> process \<Rightarrow> ('a \<Rightarrow> process \<Rightarrow> 'b result \<times> process) \<Rightarrow> 'b result \<times> process" where
  "andThen m k =
     (case m of
        (Fulfilled x, p) \<Rightarrow> k x p
      | (Rejected e, p) \<Rightarrow> (Rejected e, p)
      | (Pending, p) \<Rightarrow> (Pending, p))"

text \<open>\<^verbatim>\<open>startPolling\<close> (lines 31 to 45).\<close>

definition startPolling :: "env \<Rightarrow> config \<Rightarrow> process \<Rightarrow> unit result \<times> process" where
  "startPolling en cfg p =
     andThen (perform (createBot en (BOT_TOKEN cfg)) p) (\<lambda>_ p1.
       perform
         (bot_start en (BOT_ALLOWED_UPDATES cfg)
            (\<lambda>username. logger_info
               (JObj [(''msg'', JStr ''Bot running...''), (''username'', JStr username)])))
         (onShutdown (bot_stop en) p1))"

text \<open>
  \<^verbatim>\<open>startServer\<close> (lines 56 to 66). The promise has a \<^verbatim>\<open>resolve\<close> and no
  \<^verbatim>\<open>reject\<close>, and nothing listens for \<^verbatim>\<open>'error'\<close> on the listener:
  \<^item> when \<^verbatim>\<open>serve\<close> throws, the executor throws, the promise is rejected and
    \<open>serverHandle\<close> stays unassigned;
  \<^item> when the listener calls back, the promise is fulfilled with the address;
  \<^item> when the listener emits \<^verbatim>\<open>'error'\<close>, the promise is never settled and the error is
    an uncaught exception of the process;
  \<^item> until then the promise is pending.
\<close>

definition startServer :: "env \<Rightarrow> config \<Rightarrow> AddressInfo io" where
  "startServer en cfg w =
     (let w1 = emit (Serve (BOT_SERVER_HOST cfg) (BOT_SERVER_PORT cfg)) w;
          w2 = w1\<lparr>serverHandle := Some (BOT_SERVER_HOST cfg, BOT_SERVER_PORT cfg)\<rparr>
      in case serve_outcome en of
           ServeThrows e \<Rightarrow> (Rejected e, w1)
         | Listening info \<Rightarrow> (Fulfilled info, w2)
         | BindError e \<Rightarrow> (Pending, emit (Uncaught e) w2)
         | Binding \<Rightarrow> (Pending, w2))"

text \<open>\<^verbatim>\<open>stopServer\<close> (lines 67 to 74).\<close>

definition stopServer :: "unit io" where
  "stopServer w =
     (case serverHandle w of
        Some h \<Rightarrow> (Fulfilled (), emit ServerClose w)
      | None \<Rightarrow> (Fulfilled (), w))"

text \<open>The URL of the "Server started" line (lines 84 to 87).\<close>

definition server_url :: "AddressInfo \<Rightarrow> string" where
  "server_url info =
     (if family info = ''IPv6''
      then ''http://['' @ address info @ '']:'' @ string_of_nat (port info)
      else ''http://'' @ address info @ '':'' @ string_of_nat (port info))"

text \<open>\<^verbatim>\<open>startWebhook\<close> (lines 51 to 98).\<close>

definition startWebhook :: "env \<Rightarrow> config \<Rightarrow> process \<Rightarrow> unit result \<times> process" where
  "startWebhook en cfg p =
     andThen (perform (createBot en (BOT_TOKEN cfg)) p) (\<lambda>_ p1.
     andThen (perform (createServer en) p1) (\<lambda>_ p2.
     andThen (perform (bot_init en) (onShutdown stopServer p2)) (\<lambda>_ p3.
     andThen (perform (startServer en cfg) p3) (\<lambda>info p4.
     andThen
       (perform
          (setWebhook en (BOT_WEBHOOK cfg) (BOT_ALLOWED_UPDATES cfg) (BOT_WEBHOOK_SECRET cfg))
          (on_world
             (logger_info (JObj [(''msg'', JStr ''Server started''),
                                 (''url'', JStr (server_url info))]))
             p4))
       (\<lambda>_ p5.
          (Fulfilled (),
           on_world
             (logger_info (JObj [(''msg'', JStr ''Webhook was set''),
                                 (''url'', JStr (BOT_WEBHOOK cfg))]))
             p5))))))"

text \<open>
  The top level (lines 100 to 109). A rejection is caught, logged and the process exits
  with 1; otherwise the block is left, or is suspended at a pending \<^verbatim>\<open>await\<close>, and
  nothing else runs.
\<close>

definition main :: "env \<Rightarrow> config \<Rightarrow> process \<Rightarrow> process" where
  "main en cfg p =
     (case (if BOT_MODE cfg = ''webhook'' then startWebhook en cfg p
            else if BOT_MODE cfg = ''polling'' then startPolling en cfg p
            else (Fulfilled (), p)) of
        (Rejected e, q) \<Rightarrow> on_world (process_exit 1) (on_world (logger_error e) q)
      | (Fulfilled u, q) \<Rightarrow> q
      | (Pending, q) \<Rightarrow> q)"

text \<open>The process as it starts: nothing called, no flag, no listener.\<close>

definition boot :: process where
  "boot = \<lparr>world = \<lparr>trace = [], serverHandle = None\<rparr>, flags = [], listeners = []\<rparr>"

text \<open>
  The events of a trace that end the process, each with its status: the argument of
  \<^verbatim>\<open>process.exit\<close>, and 1 for an uncaught exception.
\<close>

fun endings :: "event list \<Rightarrow> nat list" where
  "endings [] = []"
| "endings (ProcessExit c # es) = c # endings es"
| "endings (Uncaught e # es) = 1 # endings es"
| "endings (e # es) = endings es"

text \<open>
  The status the process ends with: that of the first event that ends it, and 0 for a
  process that nothing in its trace has ended.
\<close>

definition exit_code :: "process \<Rightarrow> nat" where
  "exit_code p = (case endings (trace (world p)) of [] \<Rightarrow> 0 | c # cs \<Rightarrow> c)"

subsection \<open>\<^verbatim>\<open>bot/helpers/logging.ts\<close> and \<^verbatim>\<open>bot/features/start.ts\<close>\<close>

text \<open>
  What a handler reads of the context: the update object (its own properties, in order),
  the type of the chat, the command the framework's filter finds in the message, the
  sender, and the translation function \<^verbatim>\<open>ctx.t\<close>. The routing of \<^verbatim>\<open>chatType\<close> and
  \<^verbatim>\<open>command\<close> belongs to the framework; \<open>chat_type\<close> and \<open>command\<close> are what it decides on.
\<close>

record user =
  username :: "string option"

record Context =
  update :: "(string \<times> json) list"
  chat_type :: string
  command :: "string option"
  from_user :: user
  t :: "string \<Rightarrow> (string \<times> string) list \<Rightarrow> string"

text \<open>What a handler does: a line on \<^verbatim>\<open>ctx.logger\<close>, a reply to the chat.\<close>

datatype effect = CtxLoggerInfo json | Reply string

text \<open>The rest of the middleware chain: it acts on the effects so far and returns.\<close>

type_synonym 'r chain = "effect list \<Rightarrow> 'r \<times> effect list"

text \<open>\<^verbatim>\<open>getUpdateInfo\<close> (lines 5 to 10): the rest of the object without \<^verbatim>\<open>update_id\<close>.\<close>

definition getUpdateInfo :: "Context \<Rightarrow> (string \<times> json) list" where
  "getUpdateInfo ctx = filter (\<lambda>kv. fst kv \<noteq> ''update_id'') (update ctx)"

definition startsWith :: "string \<Rightarrow> string \<Rightarrow> bool" where
  "startsWith s p = (take (length p) s = p)"

text \<open>\<^verbatim>\<open>logHandle\<close> (lines 12 to 21).\<close>

definition handle_msg :: "string \<Rightarrow> string" where
  "handle_msg ident = ''Handle '' @ [CHR 0x22] @ ident @ [CHR 0x22]"

definition logHandle :: "string \<Rightarrow> Context \<Rightarrow> 'r chain \<Rightarrow> 'r chain" where
  "logHandle ident ctx next fx =
     next (fx @ [CtxLoggerInfo
                   (JObj ((''msg'', JStr (handle_msg ident)) #
                          (if startsWith ident ''unhandled''
                           then [(''update'', JObj (getUpdateInfo ctx))]
                           else [])))])"

text \<open>\<^verbatim>\<open>a || b\<close> on an optional string: \<^verbatim>\<open>undefined\<close> and the empty string are falsy.\<close>

definition or_else :: "string option \<Rightarrow> string \<Rightarrow> string" where
  "or_else a b = (case a of None \<Rightarrow> b | Some s \<Rightarrow> if s = [] then b else s)"

text \<open>The handler of the command (line 10) and its registration (lines 7 to 11).\<close>

definition start_handler :: "Context \<Rightarrow> unit chain" where
  "start_handler ctx fx =
     ((), fx @ [Reply (t ctx ''start.register''
                         [(''name'', or_else (username (from_user ctx)) [])])])"

definition welcomeFeature :: "Context \<Rightarrow> unit chain \<Rightarrow> unit chain" where
  "welcomeFeature ctx next =
     (if chat_type ctx = ''private'' \<and> command ctx = Some ''start''
      then logHandle ''command-start'' ctx (start_handler ctx)
      else next)"

subsection \<open>Order of the calls in a trace\<close>

text \<open>
  The calls of \<^verbatim>\<open>main.ts\<close> that wait for the outside: \<^verbatim>\<open>bot.start\<close>, \<^verbatim>\<open>bot.init\<close> and
  the bind of the listener.
\<close>

fun blocking :: "event \<Rightarrow> bool" where
  "blocking (BotStart us) = True"
| "blocking BotInit = True"
| "blocking (Serve h n) = True"
| "blocking e = False"

text \<open>
  A scan of a trace: \<open>registered si st es\<close> holds when every blocking call in \<open>es\<close>
  comes after a registration for each signal, \<open>si\<close> and \<open>st\<close> telling whether SIGINT and
  SIGTERM were registered before \<open>es\<close> began.
\<close>

fun registered :: "bool \<Rightarrow> bool \<Rightarrow> event list \<Rightarrow> bool" where
  "registered si st [] = True"
| "registered si st (e # es) =
     ((if blocking e then si \<and> st else True)
      \<and> registered (si \<or> e = ProcessOn SIGINT) (st \<or> e = ProcessOn SIGTERM) es)"

subsection \<open>A configuration and an environment to run the model on\<close>

definition cfg0 :: config where
  "cfg0 = \<lparr>BOT_TOKEN = ''123:abc'', BOT_MODE = ''webhook'',
           BOT_ALLOWED_UPDATES = [''message''],
           BOT_SERVER_HOST = ''0.0.0.0'', BOT_SERVER_PORT = 3000,
           BOT_WEBHOOK = ''https://bot.example/hook'', BOT_WEBHOOK_SECRET = ''s3cret''\<rparr>"

definition en0 :: env where
  "en0 = \<lparr>createBot_throws = None, createServer_outcome = Fulfilled (),
          init_outcome = Fulfilled (),
          serve_outcome = Listening \<lparr>address = ''0.0.0.0'', family = ''IPv4'', port = 3000\<rparr>,
          setWebhook_outcome = Fulfilled (), onStart_username = Some ''giveway_bot'',
          start_rejects = None, stop_outcome = Fulfilled ()\<rparr>"

text \<open>
  A context of a \<^verbatim>\<open>/start\<close> message in a private chat, with a translation function that
  prints the key and the parameters it was given.
\<close>

definition ctx0 :: Context where
  "ctx0 = \<lparr>update = [(''update_id'', JNum 10),
                     (''message'', JObj [(''text'', JStr ''/start'')])],
           chat_type = ''private'', command = Some ''start'',
           from_user = \<lparr>username = Some ''alice''\<rparr>,
           t = (\<lambda>key params. key @ concat (map (\<lambda>kv. '' '' @ fst kv @ ''='' @ snd kv) params))\<rparr>"

section \<open>Properties\<close>

subsection \<open>Symbolic execution\<close>

lemmas startup_defs =
  main_def startWebhook_def startPolling_def andThen_def perform_def on_world_def
  createBot_def createServer_def bot_init_def bot_start_def bot_stop_def setWebhook_def
  startServer_def stopServer_def logger_info_def logger_error_def process_exit_def emit_def
  onShutdown_def process_on_def boot_def Let_def

subsection \<open>The shutdown coordinator\<close>

lemma listeners_of_pair:
  "listeners q = [(SIGINT, h), (SIGTERM, h)] \<Longrightarrow> listeners_of s q = [h]"
  by (cases s) (simp_all add: listeners_of_def)

lemma listeners_onShutdown:
  "listeners p = [] \<Longrightarrow>
   listeners (onShutdown cleanUp p) =
     [(SIGINT, HandleShutdown (length (flags p)) cleanUp),
      (SIGTERM, HandleShutdown (length (flags p)) cleanUp)]"
  by (simp add: onShutdown_def process_on_def Let_def)

lemma flags_onShutdown: "flags (onShutdown cleanUp p) = flags p @ [False]"
  by (simp add: onShutdown_def process_on_def Let_def)

text \<open>
  A delivery while the flag is unset: the flag is set, the line logged, the action run;
  a rejection of the action reaches the runtime.
\<close>

lemma deliver_unset:
  assumes "listeners q = [(SIGINT, HandleShutdown a c), (SIGTERM, HandleShutdown a c)]"
    and "\<not> flags q ! a"
  shows "deliver s q =
     Some (q\<lparr>world := (case c (logger_info (JStr ''Shutdown'') (world q)) of
                         (Rejected e, w) \<Rightarrow> emit (Uncaught e) w
                       | (Fulfilled u, w) \<Rightarrow> w
                       | (Pending, w) \<Rightarrow> w),
             flags := (flags q)[a := True]\<rparr>)"
  using assms
  by (simp add: deliver_def listeners_of_pair handleShutdown_def perform_def on_world_def
      split: prod.splits result.splits)

text \<open>A delivery once the flag is set changes nothing.\<close>

lemma deliver_set:
  assumes "listeners q = [(SIGINT, HandleShutdown a c), (SIGTERM, HandleShutdown a c)]"
    and "flags q ! a"
  shows "deliver s q = Some q"
  using assms by (simp add: deliver_def listeners_of_pair handleShutdown_def)

lemma deliver_all_set:
  assumes "listeners q = [(SIGINT, HandleShutdown a c), (SIGTERM, HandleShutdown a c)]"
    and "flags q ! a"
  shows "deliver_all ss q = Some q"
  using assms by (induction ss) (simp_all add: deliver_set)

lemma deliver_all_unset:
  assumes "listeners q = [(SIGINT, HandleShutdown a c), (SIGTERM, HandleShutdown a c)]"
    and "\<not> flags q ! a" and "a < length (flags q)"
  shows "deliver_all (s # ss) q =
     Some (q\<lparr>world := (case c (logger_info (JStr ''Shutdown'') (world q)) of
                         (Rejected e, w) \<Rightarrow> emit (Uncaught e) w
                       | (Fulfilled u, w) \<Rightarrow> w
                       | (Pending, w) \<Rightarrow> w),
             flags := (flags q)[a := True]\<rparr>)"
proof -
  let ?q' = "q\<lparr>world := (case c (logger_info (JStr ''Shutdown'') (world q)) of
                         (Rejected e, w) \<Rightarrow> emit (Uncaught e) w
                       | (Fulfilled u, w) \<Rightarrow> w
                       | (Pending, w) \<Rightarrow> w),
               flags := (flags q)[a := True]\<rparr>"
  have "deliver s q = Some ?q'"
    using assms(1,2) by (rule deliver_unset)
  moreover have "deliver_all ss ?q' = Some ?q'"
    using assms by (intro deliver_all_set[where a = a and c = c]) simp_all
  ultimately show ?thesis by simp
qed

text \<open>
  Claim C1. Let \<open>onShutdown cleanUp\<close> be called in a process with no other signal
  listener. Whatever signal \<open>s\<close> is delivered first, the handler sets the flag, logs
  "Shutdown" and runs \<open>cleanUp\<close> once on the world as it then is; when the promise of
  \<open>cleanUp\<close> is rejected, the runtime is left with the rejection. Whatever signals
  \<open>rest\<close> follow, in any mix and order, the state after them is the state after the first
  delivery: each later delivery returns the state it found. The same holds in any state
  with these listeners in which the flag is set, so also for a signal that arrives while
  the action is still running. For an action that records each of its runs as an event
  \<open>e\<close> of its own, the trace after the whole sequence holds exactly one more \<open>e\<close> than
  before.
\<close>

theorem onShutdown_cleanUp_exactly_once:
  assumes "listeners p = []"
  shows "deliver s (onShutdown cleanUp p) =
           Some ((onShutdown cleanUp p)
                   \<lparr>world := (case cleanUp (logger_info (JStr ''Shutdown'')
                                              (world (onShutdown cleanUp p))) of
                               (Rejected e, w) \<Rightarrow> emit (Uncaught e) w
                             | (Fulfilled u, w) \<Rightarrow> w
                             | (Pending, w) \<Rightarrow> w),
                    flags := flags p @ [True]\<rparr>)
       \<and> deliver_all (s # rest) (onShutdown cleanUp p) = deliver s (onShutdown cleanUp p)
       \<and> (\<forall>q s'. deliver s (onShutdown cleanUp p) = Some q \<longrightarrow> deliver s' q = Some q)
       \<and> (\<forall>q s'. listeners q = listeners (onShutdown cleanUp p) \<and> flags q ! length (flags p)
                  \<longrightarrow> deliver s' q = Some q)
       \<and> (\<forall>e r. e \<noteq> LoggerInfo (JStr ''Shutdown'') \<and> e \<noteq> ProcessOn SIGINT
                  \<and> e \<noteq> ProcessOn SIGTERM \<and> (\<forall>x. e \<noteq> Uncaught x) \<longrightarrow>
            (\<exists>q. deliver_all (s # rest) (onShutdown (\<lambda>w. (r, emit e w)) p) = Some q
               \<and> count_list (trace (world q)) e = Suc (count_list (trace (world p)) e)))"
proof -
  let ?q = "onShutdown cleanUp p"
  let ?a = "length (flags p)"
  let ?w' = "case cleanUp (logger_info (JStr ''Shutdown'') (world ?q)) of
               (Rejected e, w) \<Rightarrow> emit (Uncaught e) w
             | (Fulfilled u, w) \<Rightarrow> w
             | (Pending, w) \<Rightarrow> w"
  have l: "listeners ?q =
      [(SIGINT, HandleShutdown ?a cleanUp), (SIGTERM, HandleShutdown ?a cleanUp)]"
    using assms by (rule listeners_onShutdown)
  have f: "\<not> flags ?q ! ?a" "?a < length (flags ?q)"
      "(flags ?q)[?a := True] = flags p @ [True]"
    by (simp_all add: flags_onShutdown)
  have d: "deliver s ?q = Some (?q\<lparr>world := ?w', flags := flags p @ [True]\<rparr>)" for s
    using deliver_unset[OF l f(1)] f(3) by simp
  have a: "deliver_all (s # rest) ?q = deliver s ?q"
    using deliver_all_unset[OF l f(1,2)] deliver_unset[OF l f(1)] by simp
  have r': "deliver s' q = Some q"
    if "listeners q = listeners ?q" "flags q ! ?a" for q s'
    using that l by (intro deliver_set[where a = ?a and c = cleanUp]) simp_all
  have r: "deliver s' q = Some q" if "deliver s ?q = Some q" for q s'
  proof -
    from that d have q: "q = ?q\<lparr>world := ?w', flags := flags p @ [True]\<rparr>"
      by simp
    show ?thesis
      by (rule r') (simp_all add: q)
  qed
  have c: "\<exists>q. deliver_all (s # rest) (onShutdown (\<lambda>w. (r, emit e w)) p) = Some q
               \<and> count_list (trace (world q)) e = Suc (count_list (trace (world p)) e)"
    if "e \<noteq> LoggerInfo (JStr ''Shutdown'')" "e \<noteq> ProcessOn SIGINT"
      "e \<noteq> ProcessOn SIGTERM" "\<forall>x. e \<noteq> Uncaught x"
    for e r
  proof -
    let ?c = "\<lambda>w. (r, emit e w)"
    let ?q = "onShutdown ?c p"
    have l: "listeners ?q = [(SIGINT, HandleShutdown ?a ?c), (SIGTERM, HandleShutdown ?a ?c)]"
      using assms by (rule listeners_onShutdown)
    have f: "\<not> flags ?q ! ?a" "?a < length (flags ?q)"
      by (simp_all add: flags_onShutdown)
    have "count_list
            (trace (world (?q\<lparr>world := (case ?c (logger_info (JStr ''Shutdown'') (world ?q)) of
                                           (Rejected e, w) \<Rightarrow> emit (Uncaught e) w
                                         | (Fulfilled u, w) \<Rightarrow> w
                                         | (Pending, w) \<Rightarrow> w),
                              flags := (flags ?q)[?a := True]\<rparr>))) e
          = Suc (count_list (trace (world p)) e)"
      using that
      by (auto simp: onShutdown_def process_on_def logger_info_def emit_def Let_def
          split: result.splits)
    with deliver_all_unset[OF l f, of s rest] show ?thesis by blast
  qed
  from d a r r' c show ?thesis by blast
qed

theorem onShutdown_cleanUp_exactly_once_witness:
  "listeners boot = []
   \<and> deliver_all [SIGINT, SIGTERM, SIGINT]
       (onShutdown (\<lambda>w. (Fulfilled (), emit BotStop w)) boot) =
       Some \<lparr>world = \<lparr>trace = [ProcessOn SIGINT, ProcessOn SIGTERM,
                                  LoggerInfo (JStr ''Shutdown''), BotStop],
                         serverHandle = None\<rparr>,
             flags = [True],
             listeners = [(SIGINT, HandleShutdown 0 (\<lambda>w. (Fulfilled (), emit BotStop w))),
                          (SIGTERM, HandleShutdown 0 (\<lambda>w. (Fulfilled (), emit BotStop w)))]\<rparr>"
  using onShutdown_cleanUp_exactly_once
          [of boot SIGINT "\<lambda>w. (Fulfilled (), emit BotStop w)" "[SIGTERM, SIGINT]"]
  by (simp add: startup_defs)

subsection \<open>The webhook path\<close>

text \<open>
  In webhook mode, once the bot and the server adapter are constructed, the calls are
  made in the order \<^verbatim>\<open>bot.init\<close>, \<^verbatim>\<open>serve\<close>, \<^verbatim>\<open>setWebhook\<close>, the last with the
  configured URL, update filter and secret. When \<^verbatim>\<open>bot.init\<close> or \<^verbatim>\<open>setWebhook\<close> is
  rejected with \<open>e\<close>, or \<^verbatim>\<open>serve\<close> itself throws \<open>e\<close>, the trace ends right after that
  call with one \<^verbatim>\<open>logger.error(e)\<close> and \<^verbatim>\<open>process.exit(1)\<close>: no later step is called, and
  the exit code is 1.
\<close>

lemma startWebhook_steps_in_order:
  assumes "BOT_MODE cfg = ''webhook''"
    and "createBot_throws en = None"
    and "createServer_outcome en = Fulfilled ()"
  shows "(init_outcome en = Fulfilled () \<and> serve_outcome en = Listening info
          \<and> setWebhook_outcome en = Fulfilled () \<longrightarrow>
            trace (world (main en cfg boot)) =
              [CreateBot (BOT_TOKEN cfg), CreateServer, ProcessOn SIGINT, ProcessOn SIGTERM,
               BotInit,
               Serve (BOT_SERVER_HOST cfg) (BOT_SERVER_PORT cfg),
               LoggerInfo (JObj [(''msg'', JStr ''Server started''),
                                 (''url'', JStr (server_url info))]),
               SetWebhook (BOT_WEBHOOK cfg) (BOT_ALLOWED_UPDATES cfg) (BOT_WEBHOOK_SECRET cfg),
               LoggerInfo (JObj [(''msg'', JStr ''Webhook was set''),
                                 (''url'', JStr (BOT_WEBHOOK cfg))])])
       \<and> (init_outcome en = Rejected e \<longrightarrow>
            trace (world (main en cfg boot)) =
              [CreateBot (BOT_TOKEN cfg), CreateServer, ProcessOn SIGINT, ProcessOn SIGTERM,
               BotInit,
               LoggerError e, ProcessExit 1]
            \<and> exit_code (main en cfg boot) = 1)
       \<and> (init_outcome en = Fulfilled () \<and> serve_outcome en = ServeThrows e \<longrightarrow>
            trace (world (main en cfg boot)) =
              [CreateBot (BOT_TOKEN cfg), CreateServer, ProcessOn SIGINT, ProcessOn SIGTERM,
               BotInit,
               Serve (BOT_SERVER_HOST cfg) (BOT_SERVER_PORT cfg),
               LoggerError e, ProcessExit 1]
            \<and> exit_code (main en cfg boot) = 1)
       \<and> (init_outcome en = Fulfilled () \<and> serve_outcome en = Listening info
          \<and> setWebhook_outcome en = Rejected e \<longrightarrow>
            trace (world (main en cfg boot)) =
              [CreateBot (BOT_TOKEN cfg), CreateServer, ProcessOn SIGINT, ProcessOn SIGTERM,
               BotInit,
               Serve (BOT_SERVER_HOST cfg) (BOT_SERVER_PORT cfg),
               LoggerInfo (JObj [(''msg'', JStr ''Server started''),
                                 (''url'', JStr (server_url info))]),
               SetWebhook (BOT_WEBHOOK cfg) (BOT_ALLOWED_UPDATES cfg) (BOT_WEBHOOK_SECRET cfg),
               LoggerError e, ProcessExit 1]
            \<and> exit_code (main en cfg boot) = 1)"
  using assms by (simp add: startup_defs exit_code_def)

text \<open>
  When the listener fails to bind, for every configuration and every error: the trace
  ends with the call of \<^verbatim>\<open>serve\<close> and the uncaught exception. \<^verbatim>\<open>setWebhook\<close> is not
  called; the \<^verbatim>\<open>catch\<close> of the top level is not reached, so \<^verbatim>\<open>logger.error\<close> and
  \<^verbatim>\<open>process.exit\<close> are not called either.
\<close>

lemma startWebhook_bind_error:
  assumes "BOT_MODE cfg = ''webhook''"
    and "createBot_throws en = None"
    and "createServer_outcome en = Fulfilled ()"
    and "init_outcome en = Fulfilled ()"
    and "serve_outcome en = BindError e"
  shows "trace (world (main en cfg boot)) =
           [CreateBot (BOT_TOKEN cfg), CreateServer, ProcessOn SIGINT, ProcessOn SIGTERM,
            BotInit,
            Serve (BOT_SERVER_HOST cfg) (BOT_SERVER_PORT cfg),
            Uncaught e]"
  using assms by (simp add: startup_defs)

text \<open>
  Claim C2. The claim says that when the bind of the listener fails, the error is caught
  once at the outermost scope, logged, and the process exits with code 1 from there. The
  code does not do so. Run in webhook mode with the configured port in use: the bot and
  the server adapter are constructed, \<^verbatim>\<open>bot.init\<close> is fulfilled, \<^verbatim>\<open>serve\<close> returns the
  listener, and the listener emits \<^verbatim>\<open>'error'\<close> with EADDRINUSE. The promise of
  \<^verbatim>\<open>startServer\<close> can only be resolved, so the error never reaches the \<^verbatim>\<open>catch\<close>: the
  trace ends with the uncaught exception, \<^verbatim>\<open>logger.error\<close> and \<^verbatim>\<open>process.exit\<close> are
  never called, and the status 1 is the one the runtime gives. The other steps, and
  \<^verbatim>\<open>serve\<close> throwing, do what the claim says.
\<close>

theorem startWebhook_bind_error_not_caught:
  "trace (world (main (en0\<lparr>serve_outcome := BindError ''EADDRINUSE''\<rparr>) cfg0 boot)) =
     [CreateBot ''123:abc'', CreateServer, ProcessOn SIGINT, ProcessOn SIGTERM,
      BotInit,
      Serve ''0.0.0.0'' 3000,
      Uncaught ''EADDRINUSE'']
   \<and> LoggerError ''EADDRINUSE''
       \<notin> set (trace (world (main (en0\<lparr>serve_outcome := BindError ''EADDRINUSE''\<rparr>) cfg0 boot)))
   \<and> ProcessExit 1
       \<notin> set (trace (world (main (en0\<lparr>serve_outcome := BindError ''EADDRINUSE''\<rparr>) cfg0 boot)))
   \<and> exit_code (main (en0\<lparr>serve_outcome := BindError ''EADDRINUSE''\<rparr>) cfg0 boot) = 1"
  by (simp add: startup_defs exit_code_def cfg0_def en0_def)

text \<open>The same configuration with each of the other outcomes.\<close>

lemma startWebhook_steps_in_order_examples:
  "trace (world (main en0 cfg0 boot)) =
       [CreateBot ''123:abc'', CreateServer, ProcessOn SIGINT, ProcessOn SIGTERM,
        BotInit,
        Serve ''0.0.0.0'' 3000,
        LoggerInfo (JObj [(''msg'', JStr ''Server started''),
                          (''url'', JStr ''http://0.0.0.0:3000'')]),
        SetWebhook ''https://bot.example/hook'' [''message''] ''s3cret'',
        LoggerInfo (JObj [(''msg'', JStr ''Webhook was set''),
                          (''url'', JStr ''https://bot.example/hook'')])]
   \<and> trace (world (main (en0\<lparr>serve_outcome := ServeThrows ''EACCES''\<rparr>) cfg0 boot)) =
       [CreateBot ''123:abc'', CreateServer, ProcessOn SIGINT, ProcessOn SIGTERM,
        BotInit,
        Serve ''0.0.0.0'' 3000,
        LoggerError ''EACCES'', ProcessExit 1]
   \<and> exit_code (main (en0\<lparr>serve_outcome := ServeThrows ''EACCES''\<rparr>) cfg0 boot) = 1
   \<and> trace (world (main (en0\<lparr>init_outcome := Rejected ''401''\<rparr>) cfg0 boot)) =
       [CreateBot ''123:abc'', CreateServer, ProcessOn SIGINT, ProcessOn SIGTERM,
        BotInit,
        LoggerError ''401'', ProcessExit 1]
   \<and> trace (world (main (en0\<lparr>setWebhook_outcome := Rejected ''400''\<rparr>) cfg0 boot)) =
       [CreateBot ''123:abc'', CreateServer, ProcessOn SIGINT, ProcessOn SIGTERM,
        BotInit,
        Serve ''0.0.0.0'' 3000,
        LoggerInfo (JObj [(''msg'', JStr ''Server started''),
                          (''url'', JStr ''http://0.0.0.0:3000'')]),
        SetWebhook ''https://bot.example/hook'' [''message''] ''s3cret'',
        LoggerError ''400'', ProcessExit 1]"
  using startWebhook_steps_in_order
          [of cfg0 en0 "\<lparr>address = ''0.0.0.0'', family = ''IPv4'', port = 3000\<rparr>" "''EACCES''"]
        startWebhook_steps_in_order
          [of cfg0 "en0\<lparr>serve_outcome := ServeThrows ''EACCES''\<rparr>"
              "\<lparr>address = ''0.0.0.0'', family = ''IPv4'', port = 3000\<rparr>" "''EACCES''"]
        startWebhook_steps_in_order
          [of cfg0 "en0\<lparr>init_outcome := Rejected ''401''\<rparr>"
              "\<lparr>address = ''0.0.0.0'', family = ''IPv4'', port = 3000\<rparr>" "''401''"]
        startWebhook_steps_in_order
          [of cfg0 "en0\<lparr>setWebhook_outcome := Rejected ''400''\<rparr>"
              "\<lparr>address = ''0.0.0.0'', family = ''IPv4'', port = 3000\<rparr>" "''400''"]
  by (simp add: cfg0_def en0_def server_url_def string_of_nat.simps digit_def)

subsection \<open>The polling path\<close>

lemma polling_trace:
  assumes "BOT_MODE cfg = ''polling''" and "createBot_throws en = None"
  shows "trace (world (main en cfg boot)) =
      [CreateBot (BOT_TOKEN cfg), ProcessOn SIGINT, ProcessOn SIGTERM,
       BotStart (BOT_ALLOWED_UPDATES cfg)]
      @ (case onStart_username en of
           None \<Rightarrow> []
         | Some u \<Rightarrow> [LoggerInfo (JObj [(''msg'', JStr ''Bot running...''),
                                        (''username'', JStr u)])])
      @ (case start_rejects en of None \<Rightarrow> [] | Some e \<Rightarrow> [LoggerError e, ProcessExit 1])"
  using assms by (simp add: startup_defs split: option.splits)

lemma polling_listeners:
  assumes "BOT_MODE cfg = ''polling''" and "createBot_throws en = None"
  shows "listeners (main en cfg boot) =
      [(SIGINT, HandleShutdown 0 (bot_stop en)), (SIGTERM, HandleShutdown 0 (bot_stop en))]"
    and "flags (main en cfg boot) = [False]"
    and "serverHandle (world (main en cfg boot)) = None"
  using assms by (simp_all add: startup_defs split: option.splits)

lemma polling_failed:
  assumes "BOT_MODE cfg = ''polling''" and "createBot_throws en = Some e"
  shows "main en cfg boot =
     \<lparr>world = \<lparr>trace = [CreateBot (BOT_TOKEN cfg), LoggerError e, ProcessExit 1],
                serverHandle = None\<rparr>, flags = [], listeners = []\<rparr>"
  using assms by (simp add: startup_defs)

lemma deliver_all_none: "listeners q = [] \<Longrightarrow> deliver_all ss q = Some q' \<Longrightarrow> q' = q"
  by (cases ss) (simp_all add: deliver_def listeners_of_def)

text \<open>What a delivered signal does to the world of a process that polls.\<close>

lemma polling_deliver:
  assumes "BOT_MODE cfg = ''polling''" and "createBot_throws en = None"
  shows "deliver s (main en cfg boot) =
      Some ((main en cfg boot)
              \<lparr>world := (case bot_stop en (logger_info (JStr ''Shutdown'')
                                              (world (main en cfg boot))) of
                           (Rejected e, w) \<Rightarrow> emit (Uncaught e) w
                         | (Fulfilled u, w) \<Rightarrow> w
                         | (Pending, w) \<Rightarrow> w),
               flags := [True]\<rparr>)"
  using deliver_unset[OF polling_listeners(1)[OF assms], of s] polling_listeners(2)[OF assms]
  by simp

lemma polling_never_serves:
  assumes m: "BOT_MODE cfg = ''polling''"
    and d: "deliver_all ss (main en cfg boot) = Some q"
  shows "Serve h n \<notin> set (trace (world q)) \<and> serverHandle (world q) = None"
proof (cases "createBot_throws en")
  case (Some e)
  have "q = main en cfg boot"
    using d by (rule deliver_all_none[rotated]) (simp add: polling_failed[OF m Some])
  then show ?thesis by (simp add: polling_failed[OF m Some])
next
  case None
  note l = polling_listeners[OF m None]
  note tr = polling_trace[OF m None]
  show ?thesis
  proof (cases ss)
    case Nil
    with d have "q = main en cfg boot" by simp
    then show ?thesis by (simp add: tr l split: option.splits)
  next
    case (Cons s ss')
    have "deliver_all (s # ss') (main en cfg boot) =
        Some ((main en cfg boot)
                \<lparr>world := (case bot_stop en (logger_info (JStr ''Shutdown'')
                                                (world (main en cfg boot))) of
                             (Rejected e, w) \<Rightarrow> emit (Uncaught e) w
                           | (Fulfilled u, w) \<Rightarrow> w
                           | (Pending, w) \<Rightarrow> w),
                 flags := (flags (main en cfg boot))[0 := True]\<rparr>)"
      by (rule deliver_all_unset[OF l(1)]) (simp_all add: l)
    with d Cons have "q = (main en cfg boot)
                \<lparr>world := (case bot_stop en (logger_info (JStr ''Shutdown'')
                                                (world (main en cfg boot))) of
                             (Rejected e, w) \<Rightarrow> emit (Uncaught e) w
                           | (Fulfilled u, w) \<Rightarrow> w
                           | (Pending, w) \<Rightarrow> w),
                 flags := (flags (main en cfg boot))[0 := True]\<rparr>"
      by simp
    then show ?thesis
      by (simp add: bot_stop_def logger_info_def emit_def tr l
          split: option.splits result.splits)
  qed
qed

text \<open>
  Claim C3. In polling mode, once the bot is constructed, the only call of startup that
  waits for the outside is one \<^verbatim>\<open>bot.start\<close>, made with exactly the configured
  \<^verbatim>\<open>allowed_updates\<close>. The listeners registered for SIGINT and SIGTERM carry the
  action that calls \<^verbatim>\<open>bot.stop\<close>: while \<^verbatim>\<open>bot.start\<close> has not been rejected, a
  delivered signal logs "Shutdown" and calls \<^verbatim>\<open>bot.stop\<close>, and nothing else follows
  unless \<^verbatim>\<open>bot.stop\<close> is rejected, which the runtime then reports. Whatever signals
  follow startup, \<^verbatim>\<open>serve\<close> is never called and no server handle is ever assigned.
\<close>

theorem startPolling_start_and_stop:
  assumes "BOT_MODE cfg = ''polling''"
  shows "(createBot_throws en = None \<longrightarrow>
           filter blocking (trace (world (main en cfg boot))) =
             [BotStart (BOT_ALLOWED_UPDATES cfg)]
           \<and> listeners (main en cfg boot) =
               [(SIGINT, HandleShutdown 0 (bot_stop en)),
                (SIGTERM, HandleShutdown 0 (bot_stop en))]
           \<and> (\<forall>w. snd (bot_stop en w) = emit BotStop w)
           \<and> (start_rejects en = None \<longrightarrow>
                (\<forall>s. \<exists>q. deliver s (main en cfg boot) = Some q
                   \<and> trace (world q) =
                       trace (world (main en cfg boot))
                       @ [LoggerInfo (JStr ''Shutdown''), BotStop]
                       @ (case stop_outcome en of
                            Rejected e \<Rightarrow> [Uncaught e]
                          | Fulfilled u \<Rightarrow> []
                          | Pending \<Rightarrow> []))))
       \<and> (\<forall>ss q h n. deliver_all ss (main en cfg boot) = Some q \<longrightarrow>
             Serve h n \<notin> set (trace (world q)) \<and> serverHandle (world q) = None)"
proof -
  have a: "filter blocking (trace (world (main en cfg boot))) =
      [BotStart (BOT_ALLOWED_UPDATES cfg)]"
    if "createBot_throws en = None"
    by (simp add: polling_trace[OF assms that] split: option.splits)
  have b: "\<exists>q. deliver s (main en cfg boot) = Some q
                 \<and> trace (world q) =
                     trace (world (main en cfg boot))
                     @ [LoggerInfo (JStr ''Shutdown''), BotStop]
                     @ (case stop_outcome en of
                          Rejected e \<Rightarrow> [Uncaught e]
                        | Fulfilled u \<Rightarrow> []
                        | Pending \<Rightarrow> [])"
    if n: "createBot_throws en = None" for s
    by (simp add: polling_deliver[OF assms n] bot_stop_def logger_info_def emit_def
        split: result.splits)
  have c: "snd (bot_stop en w) = emit BotStop w" for w
    by (simp add: bot_stop_def)
  from a b c polling_listeners(1)[OF assms] polling_never_serves[OF assms]
  show ?thesis by blast
qed

theorem startPolling_start_and_stop_witness:
  "BOT_MODE (cfg0\<lparr>BOT_MODE := ''polling''\<rparr>) = ''polling'' \<and> createBot_throws en0 = None
   \<and> start_rejects en0 = None
   \<and> filter blocking (trace (world (main en0 (cfg0\<lparr>BOT_MODE := ''polling''\<rparr>) boot))) =
       [BotStart [''message'']]
   \<and> deliver_all [] (main en0 (cfg0\<lparr>BOT_MODE := ''polling''\<rparr>) boot) =
       Some (main en0 (cfg0\<lparr>BOT_MODE := ''polling''\<rparr>) boot)
   \<and> Serve ''0.0.0.0'' 3000 \<notin> set (trace (world (main en0 (cfg0\<lparr>BOT_MODE := ''polling''\<rparr>) boot)))
   \<and> (\<exists>q. deliver SIGTERM (main en0 (cfg0\<lparr>BOT_MODE := ''polling''\<rparr>) boot) = Some q
          \<and> trace (world q) =
              [CreateBot ''123:abc'', ProcessOn SIGINT, ProcessOn SIGTERM,
               BotStart [''message''],
               LoggerInfo (JObj [(''msg'', JStr ''Bot running...''),
                                 (''username'', JStr ''giveway_bot'')]),
               LoggerInfo (JStr ''Shutdown''), BotStop])"
proof -
  have m: "BOT_MODE (cfg0\<lparr>BOT_MODE := ''polling''\<rparr>) = ''polling''" by simp
  have e: "createBot_throws en0 = None" "start_rejects en0 = None"
    "stop_outcome en0 = Fulfilled ()"
    by (simp_all add: en0_def)
  have tr: "trace (world (main en0 (cfg0\<lparr>BOT_MODE := ''polling''\<rparr>) boot)) =
      [CreateBot ''123:abc'', ProcessOn SIGINT, ProcessOn SIGTERM,
       BotStart [''message''],
       LoggerInfo (JObj [(''msg'', JStr ''Bot running...''),
                         (''username'', JStr ''giveway_bot'')])]"
    by (simp add: startup_defs cfg0_def en0_def)
  have bc: "BOT_ALLOWED_UPDATES cfg0 = [''message'']"
    by (simp add: cfg0_def)
  from startPolling_start_and_stop[OF m, of en0] e
  have d: "\<exists>q. deliver SIGTERM (main en0 (cfg0\<lparr>BOT_MODE := ''polling''\<rparr>) boot) = Some q
          \<and> trace (world q) =
              trace (world (main en0 (cfg0\<lparr>BOT_MODE := ''polling''\<rparr>) boot))
              @ [LoggerInfo (JStr ''Shutdown''), BotStop]
              @ (case stop_outcome en0 of
                   Rejected e \<Rightarrow> [Uncaught e]
                 | Fulfilled u \<Rightarrow> []
                 | Pending \<Rightarrow> [])"
    and f: "filter blocking (trace (world (main en0 (cfg0\<lparr>BOT_MODE := ''polling''\<rparr>) boot))) =
       [BotStart (BOT_ALLOWED_UPDATES (cfg0\<lparr>BOT_MODE := ''polling''\<rparr>))]"
    by blast+
  from d f e m show ?thesis
    by (simp add: tr bc)
qed

text \<open>
  When \<^verbatim>\<open>bot.stop\<close> is rejected, nobody awaits the promise of the handler: the process
  ends with status 1 by the uncaught rejection.
\<close>

lemma polling_stop_rejected_example:
  "\<exists>q. deliver SIGINT
          (main (en0\<lparr>stop_outcome := Rejected ''409''\<rparr>) (cfg0\<lparr>BOT_MODE := ''polling''\<rparr>) boot)
        = Some q
      \<and> trace (world q) =
          [CreateBot ''123:abc'', ProcessOn SIGINT, ProcessOn SIGTERM,
           BotStart [''message''],
           LoggerInfo (JObj [(''msg'', JStr ''Bot running...''),
                             (''username'', JStr ''giveway_bot'')]),
           LoggerInfo (JStr ''Shutdown''), BotStop, Uncaught ''409'']
      \<and> exit_code q = 1"
proof -
  let ?en = "en0\<lparr>stop_outcome := Rejected ''409''\<rparr>"
  let ?cfg = "cfg0\<lparr>BOT_MODE := ''polling''\<rparr>"
  have m: "main ?en ?cfg boot =
      \<lparr>world = \<lparr>trace = [CreateBot ''123:abc'', ProcessOn SIGINT, ProcessOn SIGTERM,
                           BotStart [''message''],
                           LoggerInfo (JObj [(''msg'', JStr ''Bot running...''),
                                             (''username'', JStr ''giveway_bot'')])],
                  serverHandle = None\<rparr>,
       flags = [False],
       listeners = [(SIGINT, HandleShutdown 0 (bot_stop ?en)),
                    (SIGTERM, HandleShutdown 0 (bot_stop ?en))]\<rparr>"
    by (simp add: startup_defs cfg0_def en0_def)
  have "BOT_MODE ?cfg = ''polling''" "createBot_throws ?en = None"
    by (simp_all add: en0_def)
  from polling_deliver[OF this, of SIGINT]
  have "deliver SIGINT (main ?en ?cfg boot) =
      Some ((main ?en ?cfg boot)
              \<lparr>world := emit (Uncaught ''409'')
                          (emit BotStop (logger_info (JStr ''Shutdown'')
                                           (world (main ?en ?cfg boot)))),
               flags := [True]\<rparr>)"
    by (simp add: bot_stop_def)
  then show ?thesis
    by (simp add: m logger_info_def emit_def exit_code_def)
qed

subsection \<open>The URL of the "Server started" line\<close>

text \<open>
  What \<open>string_of_nat\<close> prints: at least one character, decimal digits only, no leading
  zero but for the number 0, and the numeral whose value is the number.
\<close>

lemma digit_is_digit: "digit d \<in> set ''0123456789''"
  by (simp add: digit_def)

lemma of_char_digit: "d < 10 \<Longrightarrow> of_char (digit d) - 48 = d"
  by (simp add: digit_def)

lemma digit_nonzero: "0 < d \<Longrightarrow> d < 10 \<Longrightarrow> digit d \<noteq> CHR ''0''"
  by (simp add: digit_def)

lemma string_of_nat_nonempty: "string_of_nat n \<noteq> []"
  by (subst string_of_nat.simps) simp

lemma string_of_nat_digits: "set (string_of_nat n) \<subseteq> set ''0123456789''"
proof (induction n rule: string_of_nat.induct)
  case (1 n)
  show ?case
  proof (cases "n < 10")
    case True
    then show ?thesis
      using digit_is_digit[of n] by (subst string_of_nat.simps) simp
  next
    case False
    with 1 digit_is_digit[of "n mod 10"] show ?thesis
      by (subst string_of_nat.simps) simp
  qed
qed

lemma string_of_nat_zero: "string_of_nat 0 = ''0''"
  by (simp add: string_of_nat.simps digit_def)

lemma string_of_nat_hd: "0 < n \<Longrightarrow> hd (string_of_nat n) \<noteq> CHR ''0''"
proof (induction n rule: string_of_nat.induct)
  case (1 n)
  show ?case
  proof (cases "n < 10")
    case True
    with "1.prems" show ?thesis
      by (subst string_of_nat.simps) (simp add: digit_nonzero)
  next
    case False
    then have "0 < n div 10" by simp
    with 1 False have "hd (string_of_nat (n div 10)) \<noteq> CHR ''0''" by simp
    with False show ?thesis
      by (subst string_of_nat.simps) (simp add: string_of_nat_nonempty)
  qed
qed

lemma string_of_nat_leading: "hd (string_of_nat n) = CHR ''0'' \<Longrightarrow> string_of_nat n = ''0''"
  using string_of_nat_hd[of n] string_of_nat_zero by (cases "n = 0") auto

lemma string_of_nat_decimal:
  "fold (\<lambda>c k. 10 * k + (of_char c - 48)) (string_of_nat n) 0 = n"
proof (induction n rule: string_of_nat.induct)
  case (1 n)
  show ?case
  proof (cases "n < 10")
    case True
    then show ?thesis
      by (subst string_of_nat.simps) (simp add: of_char_digit)
  next
    case False
    with 1 show ?thesis
      by (subst string_of_nat.simps) (simp add: of_char_digit)
  qed
qed

text \<open>No other string has these four properties.\<close>

lemma digit_of_char:
  "c \<in> set ''0123456789'' \<Longrightarrow> of_char c - 48 < (10::nat) \<and> digit (of_char c - 48) = c"
  by (auto simp: digit_def)

lemma decimal_numeral_unique:
  "ds \<noteq> [] \<Longrightarrow> set ds \<subseteq> set ''0123456789'' \<Longrightarrow> (hd ds = CHR ''0'' \<longrightarrow> ds = ''0'') \<Longrightarrow>
   ds = string_of_nat (fold (\<lambda>c k. 10 * k + (of_char c - 48)) ds 0)"
proof (induction ds rule: rev_induct)
  case Nil
  then show ?case by simp
next
  case (snoc c xs)
  let ?val = "\<lambda>zs. fold (\<lambda>c k. 10 * k + (of_char c - 48)) zs (0::nat)"
  from snoc.prems have c: "of_char c - 48 < (10::nat)" "digit (of_char c - 48) = c"
    using digit_of_char[of c] by simp_all
  have v: "?val (xs @ [c]) = 10 * ?val xs + (of_char c - 48)" by simp
  show ?case
  proof (cases "xs = []")
    case True
    with c show ?thesis by (simp add: string_of_nat.simps)
  next
    case False
    with snoc.prems have h: "hd xs \<noteq> CHR ''0''" by auto
    from snoc.prems have "set xs \<subseteq> set ''0123456789''" by simp
    with snoc.IH False h have ih: "xs = string_of_nat (?val xs)" by simp
    have pos: "0 < ?val xs"
    proof (rule ccontr)
      assume "\<not> 0 < ?val xs"
      with ih have "xs = ''0''" by (simp add: string_of_nat_zero)
      with h show False by simp
    qed
    have "string_of_nat (10 * ?val xs + (of_char c - 48))
        = string_of_nat (?val xs) @ [digit (of_char c - 48)]"
      using pos c(1) by (subst string_of_nat.simps) simp
    with ih c(2) v show ?thesis by simp
  qed
qed

lemma server_url_examples:
  "server_url \<lparr>address = ''127.0.0.1'', family = ''IPv4'', port = 3000\<rparr>
     = ''http://127.0.0.1:3000''"
  "server_url \<lparr>address = ''::1'', family = ''IPv6'', port = 3000\<rparr> = ''http://[::1]:3000''"
  by (simp_all add: server_url_def string_of_nat.simps digit_def)

text \<open>
  Claim C4. When the webhook path reaches the bound address \<open>info\<close>, the line logged
  right after the call of \<^verbatim>\<open>serve\<close> is "Server started" with the URL
  \<open>http://[address]:port\<close> when the family is "IPv6" and \<open>http://address:port\<close> for every
  other family. The port is printed as its decimal numeral: a string \<open>ds\<close> that is not
  empty, holds decimal digits only, begins with 0 only when it is the string "0", and
  whose value read in base ten is the port. For 127.0.0.1, 3000, IPv4 the URL is
  \<open>http://127.0.0.1:3000\<close>; for ::1, 3000, IPv6 it is \<open>http://[::1]:3000\<close>.
\<close>

theorem server_started_url:
  "(BOT_MODE cfg = ''webhook'' \<and> createBot_throws en = None
      \<and> createServer_outcome en = Fulfilled () \<and> init_outcome en = Fulfilled ()
      \<and> serve_outcome en = Listening info \<longrightarrow>
      (\<exists>ds. take 7 (trace (world (main en cfg boot))) =
               [CreateBot (BOT_TOKEN cfg), CreateServer, ProcessOn SIGINT, ProcessOn SIGTERM,
                BotInit, Serve (BOT_SERVER_HOST cfg) (BOT_SERVER_PORT cfg),
                LoggerInfo
                  (JObj [(''msg'', JStr ''Server started''),
                         (''url'',
                          JStr (if family info = ''IPv6''
                                then ''http://['' @ address info @ '']:'' @ ds
                                else ''http://'' @ address info @ '':'' @ ds))])]
           \<and> ds \<noteq> []
           \<and> set ds \<subseteq> set ''0123456789''
           \<and> (hd ds = CHR ''0'' \<longrightarrow> ds = ''0'')
           \<and> fold (\<lambda>c k. 10 * k + (of_char c - 48)) ds 0 = port info))
   \<and> server_url \<lparr>address = ''127.0.0.1'', family = ''IPv4'', port = 3000\<rparr>
       = ''http://127.0.0.1:3000''
   \<and> server_url \<lparr>address = ''::1'', family = ''IPv6'', port = 3000\<rparr> = ''http://[::1]:3000''"
proof -
  have tr: "take 7 (trace (world (main en cfg boot))) =
        [CreateBot (BOT_TOKEN cfg), CreateServer, ProcessOn SIGINT, ProcessOn SIGTERM,
         BotInit, Serve (BOT_SERVER_HOST cfg) (BOT_SERVER_PORT cfg),
         LoggerInfo
           (JObj [(''msg'', JStr ''Server started''), (''url'', JStr (server_url info))])]"
    if "BOT_MODE cfg = ''webhook''" "createBot_throws en = None"
      "createServer_outcome en = Fulfilled ()" "init_outcome en = Fulfilled ()"
      "serve_outcome en = Listening info"
    using that by (simp add: startup_defs split: result.splits)
  have url: "server_url info =
      (if family info = ''IPv6''
       then ''http://['' @ address info @ '']:'' @ string_of_nat (port info)
       else ''http://'' @ address info @ '':'' @ string_of_nat (port info))"
    by (simp add: server_url_def)
  let ?ds = "string_of_nat (port info)"
  have ds: "?ds \<noteq> []" "set ?ds \<subseteq> set ''0123456789''"
    "hd ?ds = CHR ''0'' \<longrightarrow> ?ds = ''0''"
    "fold (\<lambda>c k. 10 * k + (of_char c - 48)) ?ds 0 = port info"
    using string_of_nat_nonempty string_of_nat_digits string_of_nat_leading
      string_of_nat_decimal
    by blast+
  have "\<exists>ds. take 7 (trace (world (main en cfg boot))) =
               [CreateBot (BOT_TOKEN cfg), CreateServer, ProcessOn SIGINT, ProcessOn SIGTERM,
                BotInit, Serve (BOT_SERVER_HOST cfg) (BOT_SERVER_PORT cfg),
                LoggerInfo
                  (JObj [(''msg'', JStr ''Server started''),
                         (''url'',
                          JStr (if family info = ''IPv6''
                                then ''http://['' @ address info @ '']:'' @ ds
                                else ''http://'' @ address info @ '':'' @ ds))])]
           \<and> ds \<noteq> []
           \<and> set ds \<subseteq> set ''0123456789''
           \<and> (hd ds = CHR ''0'' \<longrightarrow> ds = ''0'')
           \<and> fold (\<lambda>c k. 10 * k + (of_char c - 48)) ds 0 = port info"
    if "BOT_MODE cfg = ''webhook''" "createBot_throws en = None"
      "createServer_outcome en = Fulfilled ()" "init_outcome en = Fulfilled ()"
      "serve_outcome en = Listening info"
    using tr[OF that] ds unfolding url by (intro exI[of _ ?ds]) blast
  with server_url_examples show ?thesis by blast
qed

theorem server_started_url_witness:
  "BOT_MODE cfg0 = ''webhook''
   \<and> serve_outcome
         (en0\<lparr>serve_outcome := Listening \<lparr>address = ''::1'', family = ''IPv6'', port = 8080\<rparr>\<rparr>)
       = Listening \<lparr>address = ''::1'', family = ''IPv6'', port = 8080\<rparr>
   \<and> (\<exists>ds. take 7 (trace (world (main
                (en0\<lparr>serve_outcome :=
                       Listening \<lparr>address = ''::1'', family = ''IPv6'', port = 8080\<rparr>\<rparr>)
                cfg0 boot))) =
               [CreateBot ''123:abc'', CreateServer, ProcessOn SIGINT, ProcessOn SIGTERM,
                BotInit, Serve ''0.0.0.0'' 3000,
                LoggerInfo (JObj [(''msg'', JStr ''Server started''),
                                  (''url'', JStr (''http://[::1]:'' @ ds))])]
           \<and> ds \<noteq> []
           \<and> set ds \<subseteq> set ''0123456789''
           \<and> (hd ds = CHR ''0'' \<longrightarrow> ds = ''0'')
           \<and> fold (\<lambda>c k. 10 * k + (of_char c - 48)) ds 0 = (8080::nat))
   \<and> take 7 (trace (world (main
        (en0\<lparr>serve_outcome := Listening \<lparr>address = ''::1'', family = ''IPv6'', port = 8080\<rparr>\<rparr>)
        cfg0 boot))) =
        [CreateBot ''123:abc'', CreateServer, ProcessOn SIGINT, ProcessOn SIGTERM,
         BotInit, Serve ''0.0.0.0'' 3000,
         LoggerInfo (JObj [(''msg'', JStr ''Server started''),
                           (''url'', JStr ''http://[::1]:8080'')])]"
proof -
  let ?info = "\<lparr>address = ''::1'', family = ''IPv6'', port = 8080\<rparr>"
  let ?en = "en0\<lparr>serve_outcome := Listening ?info\<rparr>"
  have c: "BOT_MODE cfg0 = ''webhook''" "createBot_throws ?en = None"
    "createServer_outcome ?en = Fulfilled ()" "init_outcome ?en = Fulfilled ()"
    "serve_outcome ?en = Listening ?info"
    by (simp_all add: cfg0_def en0_def)
  have v: "BOT_TOKEN cfg0 = ''123:abc''" "BOT_SERVER_HOST cfg0 = ''0.0.0.0''"
    "BOT_SERVER_PORT cfg0 = 3000"
    by (simp_all add: cfg0_def)
  from server_started_url [of cfg0 ?en ?info] c
  have ex: "\<exists>ds. take 7 (trace (world (main ?en cfg0 boot))) =
               [CreateBot ''123:abc'', CreateServer, ProcessOn SIGINT, ProcessOn SIGTERM,
                BotInit, Serve ''0.0.0.0'' 3000,
                LoggerInfo (JObj [(''msg'', JStr ''Server started''),
                                  (''url'', JStr (''http://[::1]:'' @ ds))])]
           \<and> ds \<noteq> []
           \<and> set ds \<subseteq> set ''0123456789''
           \<and> (hd ds = CHR ''0'' \<longrightarrow> ds = ''0'')
           \<and> fold (\<lambda>c k. 10 * k + (of_char c - 48)) ds 0 = (8080::nat)"
    by (simp add: v)
  have ev: "take 7 (trace (world (main ?en cfg0 boot))) =
        [CreateBot ''123:abc'', CreateServer, ProcessOn SIGINT, ProcessOn SIGTERM,
         BotInit, Serve ''0.0.0.0'' 3000,
         LoggerInfo (JObj [(''msg'', JStr ''Server started''),
                           (''url'', JStr ''http://[::1]:8080'')])]"
    by (simp add: startup_defs cfg0_def en0_def server_url_def string_of_nat.simps digit_def)
  from c(1,5) ex ev show ?thesis by blast
qed

subsection \<open>A mode that is neither "webhook" nor "polling"\<close>

text \<open>
  Claim C10. When \<open>BOT_MODE\<close> is neither "webhook" nor "polling", the top level leaves
  every state as it found it; run from the start of the process, it makes no call at all
  (no bot, no listener, no signal handler, nothing logged), nothing ends the process
  (\<^verbatim>\<open>process.exit\<close> is not called and no error reaches the runtime), and its status is 0.
\<close>

theorem other_mode_does_nothing:
  assumes "BOT_MODE cfg \<noteq> ''webhook''" and "BOT_MODE cfg \<noteq> ''polling''"
  shows "main en cfg p = p
       \<and> trace (world (main en cfg boot)) = []
       \<and> listeners (main en cfg boot) = []
       \<and> endings (trace (world (main en cfg boot))) = []
       \<and> exit_code (main en cfg boot) = 0"
  using assms by (simp add: main_def boot_def exit_code_def)

theorem other_mode_does_nothing_witness:
  "BOT_MODE (cfg0\<lparr>BOT_MODE := ''socket''\<rparr>) \<noteq> ''webhook''
   \<and> BOT_MODE (cfg0\<lparr>BOT_MODE := ''socket''\<rparr>) \<noteq> ''polling''
   \<and> main en0 (cfg0\<lparr>BOT_MODE := ''socket''\<rparr>) boot = boot
   \<and> exit_code (main en0 (cfg0\<lparr>BOT_MODE := ''socket''\<rparr>) boot) = 0"
  using other_mode_does_nothing [of "cfg0\<lparr>BOT_MODE := ''socket''\<rparr>" en0 boot]
  by auto

subsection \<open>Closing a listener that was never started\<close>

lemma webhook_listeners:
  assumes "BOT_MODE cfg = ''webhook''" and "createBot_throws en = None"
    and "createServer_outcome en = Fulfilled ()"
  shows "listeners (main en cfg boot) =
      [(SIGINT, HandleShutdown 0 stopServer), (SIGTERM, HandleShutdown 0 stopServer)]"
    and "flags (main en cfg boot) = [False]"
  using assms by (simp_all add: startup_defs split: result.splits bind.splits)

text \<open>\<^verbatim>\<open>stopServer\<close> is never rejected, so nothing of it reaches the runtime.\<close>

lemma webhook_deliver:
  assumes "BOT_MODE cfg = ''webhook''" and "createBot_throws en = None"
    and "createServer_outcome en = Fulfilled ()"
  shows "deliver s (main en cfg boot) =
      Some ((main en cfg boot)
              \<lparr>world := snd (stopServer (logger_info (JStr ''Shutdown'')
                                             (world (main en cfg boot)))),
               flags := [True]\<rparr>)"
proof -
  have "(case stopServer w of
           (Rejected e, w') \<Rightarrow> emit (Uncaught e) w'
         | (Fulfilled u, w') \<Rightarrow> w'
         | (Pending, w') \<Rightarrow> w') = snd (stopServer w)" for w
    by (simp add: stopServer_def split: option.splits)
  with deliver_unset[OF webhook_listeners(1)[OF assms], of s] webhook_listeners(2)[OF assms]
  show ?thesis by simp
qed

text \<open>The state while \<^verbatim>\<open>bot.init\<close> is awaited: \<^verbatim>\<open>serve\<close> has not been called.\<close>

lemma webhook_init_pending:
  assumes "BOT_MODE cfg = ''webhook''" and "createBot_throws en = None"
    and "createServer_outcome en = Fulfilled ()" and "init_outcome en = Pending"
  shows "world (main en cfg boot) =
     \<lparr>trace = [CreateBot (BOT_TOKEN cfg), CreateServer, ProcessOn SIGINT, ProcessOn SIGTERM,
               BotInit],
      serverHandle = None\<rparr>"
  using assms by (simp add: startup_defs)

text \<open>
  Claim C8. \<^verbatim>\<open>stopServer\<close> on a world without a server handle is fulfilled and returns
  the world as it was. The webhook path registers it as the cleanup action, and the case
  arises: while \<^verbatim>\<open>bot.init\<close> is awaited there is no handle, and a signal delivered then
  sets the flag and logs "Shutdown" and changes nothing else.
\<close>

theorem stopServer_without_handle:
  "(serverHandle w = None \<longrightarrow> stopServer w = (Fulfilled (), w))
   \<and> (BOT_MODE cfg = ''webhook'' \<and> createBot_throws en = None
        \<and> createServer_outcome en = Fulfilled () \<and> init_outcome en = Pending \<longrightarrow>
        serverHandle (world (main en cfg boot)) = None
        \<and> listeners (main en cfg boot) =
            [(SIGINT, HandleShutdown 0 stopServer), (SIGTERM, HandleShutdown 0 stopServer)]
        \<and> (\<forall>s. deliver s (main en cfg boot) =
                 Some ((main en cfg boot)
                         \<lparr>world := logger_info (JStr ''Shutdown'') (world (main en cfg boot)),
                          flags := [True]\<rparr>)))"
proof -
  have a: "stopServer w = (Fulfilled (), w)" if "serverHandle w = None"
    using that by (simp add: stopServer_def)
  have b: "deliver s (main en cfg boot) =
                 Some ((main en cfg boot)
                         \<lparr>world := logger_info (JStr ''Shutdown'') (world (main en cfg boot)),
                          flags := [True]\<rparr>)"
    if m: "BOT_MODE cfg = ''webhook''" "createBot_throws en = None"
       "createServer_outcome en = Fulfilled ()" and i: "init_outcome en = Pending" for s
  proof -
    note w = webhook_init_pending[OF m i]
    have "serverHandle (logger_info (JStr ''Shutdown'') (world (main en cfg boot))) = None"
      by (simp add: w logger_info_def emit_def)
    then have "snd (stopServer (logger_info (JStr ''Shutdown'') (world (main en cfg boot))))
        = logger_info (JStr ''Shutdown'') (world (main en cfg boot))"
      by (simp add: stopServer_def)
    with webhook_deliver[OF m, of s] show ?thesis by simp
  qed
  from a b webhook_listeners(1) webhook_init_pending show ?thesis
    by simp
qed

theorem stopServer_without_handle_witness:
  "serverHandle (world boot) = None \<and> stopServer (world boot) = (Fulfilled (), world boot)
   \<and> BOT_MODE cfg0 = ''webhook'' \<and> init_outcome (en0\<lparr>init_outcome := Pending\<rparr>) = Pending
   \<and> deliver SIGINT (main (en0\<lparr>init_outcome := Pending\<rparr>) cfg0 boot) =
       Some \<lparr>world = \<lparr>trace = [CreateBot ''123:abc'', CreateServer, ProcessOn SIGINT,
                                  ProcessOn SIGTERM, BotInit, LoggerInfo (JStr ''Shutdown'')],
                         serverHandle = None\<rparr>,
             flags = [True],
             listeners = [(SIGINT, HandleShutdown 0 stopServer),
                          (SIGTERM, HandleShutdown 0 stopServer)]\<rparr>"
proof -
  have m: "main (en0\<lparr>init_outcome := Pending\<rparr>) cfg0 boot =
      \<lparr>world = \<lparr>trace = [CreateBot ''123:abc'', CreateServer, ProcessOn SIGINT,
                           ProcessOn SIGTERM, BotInit],
                  serverHandle = None\<rparr>,
       flags = [False],
       listeners = [(SIGINT, HandleShutdown 0 stopServer),
                    (SIGTERM, HandleShutdown 0 stopServer)]\<rparr>"
    by (simp add: startup_defs cfg0_def en0_def)
  from stopServer_without_handle [of "world boot" cfg0 "en0\<lparr>init_outcome := Pending\<rparr>"]
  show ?thesis
    by (simp add: m) (simp add: boot_def cfg0_def en0_def logger_info_def emit_def)
qed

subsection \<open>Registration comes before the calls that wait\<close>

lemma registered_nth:
  "registered si st es \<Longrightarrow> i < length es \<Longrightarrow> blocking (es ! i) \<Longrightarrow>
   (si \<or> ProcessOn SIGINT \<in> set (take i es)) \<and> (st \<or> ProcessOn SIGTERM \<in> set (take i es))"
proof (induction es arbitrary: si st i)
  case Nil
  then show ?case by simp
next
  case (Cons e es)
  show ?case
  proof (cases i)
    case 0
    with Cons.prems show ?thesis by simp
  next
    case (Suc j)
    with Cons.prems
    have "registered (si \<or> e = ProcessOn SIGINT) (st \<or> e = ProcessOn SIGTERM) es"
      "j < length es" "blocking (es ! j)"
      by simp_all
    from Cons.IH[OF this] Suc show ?thesis by auto
  qed
qed

lemma main_registered: "registered False False (trace (world (main en cfg boot)))"
  by (simp add: startup_defs split: result.splits option.splits bind.splits)

text \<open>
  Claim C9. In every run of the top level, whatever the mode and whatever the
  collaborators answer, each call of \<^verbatim>\<open>bot.start\<close>, \<^verbatim>\<open>bot.init\<close> or \<^verbatim>\<open>serve\<close> in
  the trace has both \<^verbatim>\<open>process.on("SIGINT", ...)\<close> and \<^verbatim>\<open>process.on("SIGTERM", ...)\<close>
  before it. In polling mode the trace begins: construction, the two registrations,
  \<^verbatim>\<open>bot.start\<close>. In webhook mode it begins: construction of bot and server, the two
  registrations, \<^verbatim>\<open>bot.init\<close>, and then \<^verbatim>\<open>serve\<close>. A signal delivered to the state
  that startup has reached, nothing having ended the process, runs the handler: the flag
  is set, "Shutdown" logged and the cleanup action of the path run (a rejection of
  \<^verbatim>\<open>bot.stop\<close> is left to the runtime; \<^verbatim>\<open>stopServer\<close> is never rejected).
\<close>

theorem registration_before_blocking_calls:
  "(\<forall>i < length (trace (world (main en cfg boot))).
       blocking (trace (world (main en cfg boot)) ! i) \<longrightarrow>
         ProcessOn SIGINT \<in> set (take i (trace (world (main en cfg boot))))
         \<and> ProcessOn SIGTERM \<in> set (take i (trace (world (main en cfg boot)))))
   \<and> (BOT_MODE cfg = ''polling'' \<and> createBot_throws en = None \<longrightarrow>
        take 4 (trace (world (main en cfg boot))) =
          [CreateBot (BOT_TOKEN cfg), ProcessOn SIGINT, ProcessOn SIGTERM,
           BotStart (BOT_ALLOWED_UPDATES cfg)]
        \<and> (endings (trace (world (main en cfg boot))) = [] \<longrightarrow>
             (\<forall>s. deliver s (main en cfg boot) =
                 Some ((main en cfg boot)
                         \<lparr>world := (case bot_stop en (logger_info (JStr ''Shutdown'')
                                                         (world (main en cfg boot))) of
                                      (Rejected e, w) \<Rightarrow> emit (Uncaught e) w
                                    | (Fulfilled u, w) \<Rightarrow> w
                                    | (Pending, w) \<Rightarrow> w),
                          flags := [True]\<rparr>))))
   \<and> (BOT_MODE cfg = ''webhook'' \<and> createBot_throws en = None
        \<and> createServer_outcome en = Fulfilled () \<longrightarrow>
        take 5 (trace (world (main en cfg boot))) =
          [CreateBot (BOT_TOKEN cfg), CreateServer, ProcessOn SIGINT, ProcessOn SIGTERM,
           BotInit]
        \<and> (init_outcome en = Fulfilled () \<longrightarrow>
             take 6 (trace (world (main en cfg boot))) =
               [CreateBot (BOT_TOKEN cfg), CreateServer, ProcessOn SIGINT, ProcessOn SIGTERM,
                BotInit, Serve (BOT_SERVER_HOST cfg) (BOT_SERVER_PORT cfg)])
        \<and> (endings (trace (world (main en cfg boot))) = [] \<longrightarrow>
             (\<forall>s. deliver s (main en cfg boot) =
                 Some ((main en cfg boot)
                         \<lparr>world := snd (stopServer (logger_info (JStr ''Shutdown'')
                                                        (world (main en cfg boot)))),
                          flags := [True]\<rparr>))))"
proof -
  have a: "ProcessOn SIGINT \<in> set (take i (trace (world (main en cfg boot))))
         \<and> ProcessOn SIGTERM \<in> set (take i (trace (world (main en cfg boot))))"
    if "i < length (trace (world (main en cfg boot)))"
      "blocking (trace (world (main en cfg boot)) ! i)" for i
    using registered_nth[OF main_registered that] by simp
  have p: "take 4 (trace (world (main en cfg boot))) =
          [CreateBot (BOT_TOKEN cfg), ProcessOn SIGINT, ProcessOn SIGTERM,
           BotStart (BOT_ALLOWED_UPDATES cfg)]"
    if "BOT_MODE cfg = ''polling''" "createBot_throws en = None"
    by (simp add: polling_trace[OF that])
  note pd = polling_deliver
  have w: "take 5 (trace (world (main en cfg boot))) =
          [CreateBot (BOT_TOKEN cfg), CreateServer, ProcessOn SIGINT, ProcessOn SIGTERM,
           BotInit]"
    if "BOT_MODE cfg = ''webhook''" "createBot_throws en = None"
       "createServer_outcome en = Fulfilled ()"
    using that by (simp add: startup_defs split: result.splits bind.splits)
  have ws: "take 6 (trace (world (main en cfg boot))) =
               [CreateBot (BOT_TOKEN cfg), CreateServer, ProcessOn SIGINT, ProcessOn SIGTERM,
                BotInit, Serve (BOT_SERVER_HOST cfg) (BOT_SERVER_PORT cfg)]"
    if "BOT_MODE cfg = ''webhook''" "createBot_throws en = None"
       "createServer_outcome en = Fulfilled ()" "init_outcome en = Fulfilled ()"
    using that by (simp add: startup_defs split: result.splits bind.splits)
  note wd = webhook_deliver
  from a p pd[of cfg en] w ws wd[of cfg en] show ?thesis by blast
qed

theorem registration_before_blocking_calls_witness:
  "3 < length (trace (world (main en0 (cfg0\<lparr>BOT_MODE := ''polling''\<rparr>) boot)))
   \<and> blocking (trace (world (main en0 (cfg0\<lparr>BOT_MODE := ''polling''\<rparr>) boot)) ! 3)
   \<and> ProcessOn SIGINT
       \<in> set (take 3 (trace (world (main en0 (cfg0\<lparr>BOT_MODE := ''polling''\<rparr>) boot))))
   \<and> ProcessOn SIGTERM
       \<in> set (take 3 (trace (world (main en0 (cfg0\<lparr>BOT_MODE := ''polling''\<rparr>) boot))))
   \<and> BOT_MODE cfg0 = ''webhook''
   \<and> endings (trace (world (main (en0\<lparr>serve_outcome := Binding\<rparr>) cfg0 boot))) = []
   \<and> deliver SIGTERM (main (en0\<lparr>serve_outcome := Binding\<rparr>) cfg0 boot) =
       Some \<lparr>world = \<lparr>trace = [CreateBot ''123:abc'', CreateServer, ProcessOn SIGINT,
                                  ProcessOn SIGTERM, BotInit, Serve ''0.0.0.0'' 3000,
                                  LoggerInfo (JStr ''Shutdown''), ServerClose],
                         serverHandle = Some (''0.0.0.0'', 3000)\<rparr>,
             flags = [True],
             listeners = [(SIGINT, HandleShutdown 0 stopServer),
                          (SIGTERM, HandleShutdown 0 stopServer)]\<rparr>"
proof -
  have tr: "trace (world (main en0 (cfg0\<lparr>BOT_MODE := ''polling''\<rparr>) boot)) =
      [CreateBot ''123:abc'', ProcessOn SIGINT, ProcessOn SIGTERM,
       BotStart [''message''],
       LoggerInfo (JObj [(''msg'', JStr ''Bot running...''),
                         (''username'', JStr ''giveway_bot'')])]"
    by (simp add: startup_defs cfg0_def en0_def)
  have m: "main (en0\<lparr>serve_outcome := Binding\<rparr>) cfg0 boot =
      \<lparr>world = \<lparr>trace = [CreateBot ''123:abc'', CreateServer, ProcessOn SIGINT,
                           ProcessOn SIGTERM, BotInit, Serve ''0.0.0.0'' 3000],
                  serverHandle = Some (''0.0.0.0'', 3000)\<rparr>,
       flags = [False],
       listeners = [(SIGINT, HandleShutdown 0 stopServer),
                    (SIGTERM, HandleShutdown 0 stopServer)]\<rparr>"
    by (simp add: startup_defs cfg0_def en0_def)
  have c: "BOT_MODE cfg0 = ''webhook''" "createBot_throws (en0\<lparr>serve_outcome := Binding\<rparr>) = None"
    "createServer_outcome (en0\<lparr>serve_outcome := Binding\<rparr>) = Fulfilled ()"
    by (simp_all add: cfg0_def en0_def)
  from registration_before_blocking_calls [of en0 "cfg0\<lparr>BOT_MODE := ''polling''\<rparr>"]
  have "3 < length (trace (world (main en0 (cfg0\<lparr>BOT_MODE := ''polling''\<rparr>) boot))) \<longrightarrow>
       blocking (trace (world (main en0 (cfg0\<lparr>BOT_MODE := ''polling''\<rparr>) boot)) ! 3) \<longrightarrow>
         ProcessOn SIGINT
           \<in> set (take 3 (trace (world (main en0 (cfg0\<lparr>BOT_MODE := ''polling''\<rparr>) boot))))
         \<and> ProcessOn SIGTERM
           \<in> set (take 3 (trace (world (main en0 (cfg0\<lparr>BOT_MODE := ''polling''\<rparr>) boot))))"
    by blast
  moreover have "3 < length (trace (world (main en0 (cfg0\<lparr>BOT_MODE := ''polling''\<rparr>) boot)))"
    "blocking (trace (world (main en0 (cfg0\<lparr>BOT_MODE := ''polling''\<rparr>) boot)) ! 3)"
    by (simp_all add: tr)
  moreover have "endings (trace (world (main (en0\<lparr>serve_outcome := Binding\<rparr>) cfg0 boot))) = []"
    by (simp add: m)
  moreover from this registration_before_blocking_calls [of "en0\<lparr>serve_outcome := Binding\<rparr>" cfg0] c
  have "deliver SIGTERM (main (en0\<lparr>serve_outcome := Binding\<rparr>) cfg0 boot) =
      Some ((main (en0\<lparr>serve_outcome := Binding\<rparr>) cfg0 boot)
              \<lparr>world := snd (stopServer (logger_info (JStr ''Shutdown'')
                               (world (main (en0\<lparr>serve_outcome := Binding\<rparr>) cfg0 boot)))),
               flags := [True]\<rparr>)"
    by blast
  then have "deliver SIGTERM (main (en0\<lparr>serve_outcome := Binding\<rparr>) cfg0 boot) =
       Some \<lparr>world = \<lparr>trace = [CreateBot ''123:abc'', CreateServer, ProcessOn SIGINT,
                                  ProcessOn SIGTERM, BotInit, Serve ''0.0.0.0'' 3000,
                                  LoggerInfo (JStr ''Shutdown''), ServerClose],
                         serverHandle = Some (''0.0.0.0'', 3000)\<rparr>,
             flags = [True],
             listeners = [(SIGINT, HandleShutdown 0 stopServer),
                          (SIGTERM, HandleShutdown 0 stopServer)]\<rparr>"
    by (simp add: m stopServer_def logger_info_def emit_def)
  ultimately show ?thesis using c(1) by blast
qed

subsection \<open>The /start command\<close>

lemma or_else_username: "or_else u [] = (case u of None \<Rightarrow> [] | Some n \<Rightarrow> n)"
  by (simp add: or_else_def split: option.splits)

text \<open>
  Claim C5. For a \<^verbatim>\<open>/start\<close> command in a private chat the feature logs the handling
  and replies with \<^verbatim>\<open>ctx.t("start.register", {name})\<close>, where \<open>name\<close> is the username of
  the sender when there is one and the empty string when there is none.
\<close>

theorem start_command_reply:
  assumes "chat_type ctx = ''private''" and "command ctx = Some ''start''"
  shows "welcomeFeature ctx next fx =
           ((), fx @ [CtxLoggerInfo (JObj [(''msg'', JStr (handle_msg ''command-start''))]),
                     Reply (t ctx ''start.register''
                              [(''name'', case username (from_user ctx) of
                                            Some n \<Rightarrow> n
                                          | None \<Rightarrow> [])])])"
  using assms
  by (simp add: welcomeFeature_def logHandle_def start_handler_def startsWith_def
      or_else_username)

theorem start_command_reply_witness:
  "chat_type ctx0 = ''private'' \<and> command ctx0 = Some ''start''
   \<and> snd (welcomeFeature ctx0 (\<lambda>s. ((), s)) []) =
       [CtxLoggerInfo (JObj [(''msg'', JStr (''Handle '' @ [CHR 0x22] @ ''command-start'' @ [CHR 0x22]))]),
        Reply ''start.register name=alice'']
   \<and> snd (welcomeFeature (ctx0\<lparr>from_user := \<lparr>username = None\<rparr>\<rparr>) (\<lambda>s. ((), s)) []) =
       [CtxLoggerInfo (JObj [(''msg'', JStr (''Handle '' @ [CHR 0x22] @ ''command-start'' @ [CHR 0x22]))]),
        Reply ''start.register name='']"
  using start_command_reply [of ctx0 "\<lambda>s. ((), s)" "[]"]
        start_command_reply
          [of "ctx0\<lparr>from_user := \<lparr>username = None\<rparr>\<rparr>" "\<lambda>s. ((), s)" "[]"]
  by (simp add: ctx0_def handle_msg_def)

subsection \<open>The logging helper\<close>

lemma startsWith_iff: "startsWith s p \<longleftrightarrow> (\<exists>r. s = p @ r)"
  unfolding startsWith_def
  by (metis append_eq_conv_conj append_take_drop_id)

lemma map_of_without_key:
  "map_of (filter (\<lambda>kv. fst kv \<noteq> a) xs) k = (if k = a then None else map_of xs k)"
  by (induction xs) auto

text \<open>
  Claim C6. For every identifier, the middleware of \<^verbatim>\<open>logHandle\<close> hands to the rest of
  the chain the effects so far followed by one log event, an object whose \<open>msg\<close> is
  \<^verbatim>\<open>Handle "id"\<close>. The object has a field \<open>update\<close> exactly when the identifier begins
  with "unhandled", and the field is then the update without its \<open>update_id\<close>: every
  other key of the update is kept with its value. With "unhandled-update" the event
  carries the stripped update; with "command-start" it is the message alone.
\<close>

theorem logHandle_event:
  "(\<exists>fields.
      logHandle ident ctx next fx = next (fx @ [CtxLoggerInfo (JObj fields)])
      \<and> map_of fields ''msg'' = Some (JStr (''Handle '' @ [CHR 0x22] @ ident @ [CHR 0x22]))
      \<and> map_of fields ''update'' =
          (if \<exists>r. ident = ''unhandled'' @ r then Some (JObj (getUpdateInfo ctx)) else None))
   \<and> (\<forall>k. map_of (getUpdateInfo ctx) k =
            (if k = ''update_id'' then None else map_of (update ctx) k))
   \<and> logHandle ''unhandled-update'' ctx next fx =
       next (fx @ [CtxLoggerInfo
                     (JObj [(''msg'', JStr (handle_msg ''unhandled-update'')),
                            (''update'',
                             JObj (filter (\<lambda>kv. fst kv \<noteq> ''update_id'') (update ctx)))])])
   \<and> logHandle ''command-start'' ctx next fx =
       next (fx @ [CtxLoggerInfo (JObj [(''msg'', JStr (handle_msg ''command-start''))])])"
proof -
  let ?fields = "(''msg'', JStr (handle_msg ident)) #
                 (if startsWith ident ''unhandled''
                  then [(''update'', JObj (getUpdateInfo ctx))] else [])"
  have "logHandle ident ctx next fx = next (fx @ [CtxLoggerInfo (JObj ?fields)])"
    by (simp add: logHandle_def)
  moreover have "map_of ?fields ''msg''
      = Some (JStr (''Handle '' @ [CHR 0x22] @ ident @ [CHR 0x22]))"
    by (simp add: handle_msg_def)
  moreover have "map_of ?fields ''update'' =
      (if \<exists>r. ident = ''unhandled'' @ r then Some (JObj (getUpdateInfo ctx)) else None)"
    using startsWith_iff[of ident "''unhandled''"] by simp
  ultimately have a: "\<exists>fields.
      logHandle ident ctx next fx = next (fx @ [CtxLoggerInfo (JObj fields)])
      \<and> map_of fields ''msg'' = Some (JStr (''Handle '' @ [CHR 0x22] @ ident @ [CHR 0x22]))
      \<and> map_of fields ''update'' =
          (if \<exists>r. ident = ''unhandled'' @ r then Some (JObj (getUpdateInfo ctx)) else None)"
    by blast
  have b: "map_of (getUpdateInfo ctx) k =
      (if k = ''update_id'' then None else map_of (update ctx) k)" for k
    by (simp add: getUpdateInfo_def map_of_without_key)
  have c: "logHandle ''unhandled-update'' ctx next fx =
       next (fx @ [CtxLoggerInfo
                     (JObj [(''msg'', JStr (handle_msg ''unhandled-update'')),
                            (''update'',
                             JObj (filter (\<lambda>kv. fst kv \<noteq> ''update_id'') (update ctx)))])])"
    by (simp add: logHandle_def startsWith_def getUpdateInfo_def)
  have d: "logHandle ''command-start'' ctx next fx =
       next (fx @ [CtxLoggerInfo (JObj [(''msg'', JStr (handle_msg ''command-start''))])])"
    by (simp add: logHandle_def startsWith_def)
  from a b c d show ?thesis by blast
qed

theorem logHandle_event_witness:
  "logHandle ''unhandled-update'' ctx0 (\<lambda>s. ((), s)) [] =
     ((), [CtxLoggerInfo
             (JObj [(''msg'', JStr (''Handle '' @ [CHR 0x22] @ ''unhandled-update'' @ [CHR 0x22])),
                    (''update'', JObj [(''message'', JObj [(''text'', JStr ''/start'')])])])])
   \<and> logHandle ''command-start'' ctx0 (\<lambda>s. ((), s)) [] =
     ((), [CtxLoggerInfo
             (JObj [(''msg'', JStr (''Handle '' @ [CHR 0x22] @ ''command-start'' @ [CHR 0x22]))])])"
  using logHandle_event [of "''unhandled-update''" ctx0 "\<lambda>s. ((), s)" "[]"]
  by (simp add: ctx0_def handle_msg_def)

text \<open>
  Claim C7. For every identifier, context and rest of the chain, the result of the
  middleware is the result of the rest of the chain, called on the effects so far
  followed by the log event: the value it returns and the effects it leaves are those of
  that one call. With a rest of the chain that marks each of its calls by a reply \<open>m\<close>
  and returns \<open>r\<close>, the middleware returns \<open>r\<close> and leaves the log event followed by
  \<open>m\<close>: the effects hold exactly one more \<open>m\<close> than before.
\<close>

theorem logHandle_calls_next_once:
  "logHandle ident ctx next fx =
     next (fx @ [CtxLoggerInfo
                   (JObj ((''msg'', JStr (handle_msg ident)) #
                          (if startsWith ident ''unhandled''
                           then [(''update'', JObj (getUpdateInfo ctx))] else [])))])
   \<and> (\<exists>ev. logHandle ident ctx (\<lambda>s. (r, s @ [Reply m])) fx =
              (r, fx @ [CtxLoggerInfo ev, Reply m]))
   \<and> count_list (snd (logHandle ident ctx (\<lambda>s. (r, s @ [Reply m])) fx)) (Reply m) =
       Suc (count_list fx (Reply m))"
proof -
  let ?ev = "CtxLoggerInfo
               (JObj ((''msg'', JStr (handle_msg ident)) #
                      (if startsWith ident ''unhandled''
                       then [(''update'', JObj (getUpdateInfo ctx))] else [])))"
  have delegate: "logHandle ident ctx next fx = next (fx @ [?ev])"
    by (simp add: logHandle_def)
  have marked: "logHandle ident ctx (\<lambda>s. (r, s @ [Reply m])) fx = (r, fx @ [?ev, Reply m])"
    by (simp add: logHandle_def)
  have "count_list (fx @ [?ev, Reply m]) (Reply m) = Suc (count_list fx (Reply m))"
    by simp
  with marked have "count_list (snd (logHandle ident ctx (\<lambda>s. (r, s @ [Reply m])) fx)) (Reply m)
      = Suc (count_list fx (Reply m))"
    by simp
  with delegate marked show ?thesis by blast
qed

theorem logHandle_calls_next_once_witness:
  "logHandle ''command-start'' ctx0 (\<lambda>s. (True, s @ [Reply ''next''])) [] =
     (True,
      [CtxLoggerInfo
         (JObj [(''msg'', JStr (''Handle '' @ [CHR 0x22] @ ''command-start'' @ [CHR 0x22]))]),
       Reply ''next''])"
  using logHandle_calls_next_once
          [of "''command-start''" ctx0 "\<lambda>s. (True, s @ [Reply ''next''])" "[]" True "''next''"]
  by (simp add: startsWith_def handle_msg_def)

end
